theory Spec2Isabelle
  imports Main
begin

section \<open>The Tello video session orchestrator\<close>

text \<open>
  The repository holds two variants of the React Native component \<^verbatim>\<open>App\<close>:
  the status-enum orchestrator (the 513-line file, \<^verbatim>\<open>src/unnamed/part_000\<close>) and the
  older flag-based one (\<^verbatim>\<open>src/App.jsx\<close>). Both are embedded here. Definitions of the
  first keep the source's names; definitions of the second carry the suffix \<open>_jsx\<close>.

  React state (\<^verbatim>\<open>useState\<close>) and refs (\<^verbatim>\<open>useRef\<close>) are the fields of a record that
  every handler takes and returns. Calls into the collaborators (UDP socket, FFmpegKit,
  timers, alerts) are appended to a log, in the order the code issues them. What a
  collaborator answers (a callback's \<^verbatim>\<open>err\<close>, a rejected promise) is an input of the
  handler, the record \<open>env\<close>. A handler is run from its first statement to its last:
  every \<^verbatim>\<open>await\<close> resumes before the next event is delivered.
\<close>

subsection \<open>Constants\<close>

definition TELLO_IP :: string where
  "TELLO_IP = ''192.168.10.1''"

definition TELLO_COMMAND_PORT :: nat where
  "TELLO_COMMAND_PORT = 8889"

definition TELLO_VIDEO_PORT :: nat where
  "TELLO_VIDEO_PORT = 11111"

definition LOCAL_COMMAND_PORT_BIND :: nat where
  "LOCAL_COMMAND_PORT_BIND = 9000"

definition LOCAL_VIDEO_INPUT_PORT :: nat where
  "LOCAL_VIDEO_INPUT_PORT = TELLO_VIDEO_PORT"

definition LOCAL_VIDEO_OUTPUT_HTTP_PORT :: nat where
  "LOCAL_VIDEO_OUTPUT_HTTP_PORT = 11112"

subsection \<open>Data\<close>

datatype ConnectionStatus = DISCONNECTED | CONNECTING | CONNECTED | STREAMING | ERROR

text \<open>
  A socket is the object \<^verbatim>\<open>dgram.createSocket\<close> returns; the model numbers them in the
  order of creation. A session identifier is the number FFmpegKit returns from
  \<^verbatim>\<open>getSessionId\<close>; the source does not constrain it, so it may be 0, which
  JavaScript treats as falsy.
\<close>

type_synonym socket = nat
type_synonym session = nat

datatype effect =
    CreateSocket socket
  | Bind socket "nat option"
  | Send socket string nat nat nat string
  | SetTimeout nat
  | Close socket
  | ExecuteAsync string
  | Cancel session
  | Alert string string

record app =
  status :: ConnectionStatus
  error :: string
  commandSocket :: "socket option"
  ffmpegSessionId :: "session option"
  created :: nat
  calls :: "effect list"

definition initial :: app where
  "initial = \<lparr>status = DISCONNECTED, error = '''', commandSocket = None,
     ffmpegSessionId = None, created = 0, calls = []\<rparr>"

definition setStatus :: "ConnectionStatus \<Rightarrow> app \<Rightarrow> app" where
  "setStatus v s = s\<lparr>status := v\<rparr>"

definition setError :: "string \<Rightarrow> app \<Rightarrow> app" where
  "setError v s = s\<lparr>error := v\<rparr>"

definition call :: "effect \<Rightarrow> app \<Rightarrow> app" where
  "call e s = s\<lparr>calls := calls s @ [e]\<rparr>"

subsection \<open>What the collaborators answer\<close>

datatype platform = Android | IOS | OtherOS

datatype 'a outcome = Resolves 'a | Rejects string

datatype permission = GRANTED | DENIED | NEVER_ASK_AGAIN

record netinfo =
  isConnected :: "bool option"
  link_type :: string
  ssid :: "string option"

record env =
  platform_os :: platform
  permission_request :: "permission outcome"
  netinfo_fetch :: "netinfo outcome"
  bind_err :: "string option"
  send_err :: "string \<Rightarrow> string option"
  execute_async :: "session outcome"

datatype return_code = Success | Cancelled | Failed

record video_error =
  localizedFailureReason :: "string option"
  localizedDescription :: "string option"

subsection \<open>Teardown\<close>

text \<open>
  \<^verbatim>\<open>cleanup\<close> (lines 44-72). \<^verbatim>\<open>FFmpegKit.cancel\<close> and \<^verbatim>\<open>close\<close> sit in
  \<^verbatim>\<open>try\<close> blocks whose \<^verbatim>\<open>catch\<close> only logs and whose \<^verbatim>\<open>finally\<close> clears the
  handle, so the state after the block is the same whether the call throws or not.
  The test \<^verbatim>\<open>if (ffmpegSessionId.current)\<close> (line 50) is a truthiness test: an
  empty ref and a stored identifier 0 both skip the block. The socket ref holds an
  object, which is truthy whenever it is stored.
\<close>

definition cleanup :: "app \<Rightarrow> app" where
  "cleanup s =
    (let s1 = setStatus DISCONNECTED s;
         s2 = setError [] s1;
         s3 = (case ffmpegSessionId s2 of
                 None \<Rightarrow> s2
               | Some sid \<Rightarrow>
                   (if sid \<noteq> 0 then (call (Cancel sid) s2)\<lparr>ffmpegSessionId := None\<rparr>
                    else s2));
         s4 = (case commandSocket s3 of
                 None \<Rightarrow> s3
               | Some k \<Rightarrow> (call (Close k) s3)\<lparr>commandSocket := None\<rparr>)
     in s4)"

subsection \<open>Preflight\<close>

text \<open>\<^verbatim>\<open>checkPermissions\<close> (lines 86-114): only Android asks.\<close>

definition checkPermissions :: "env \<Rightarrow> app \<Rightarrow> bool \<times> app" where
  "checkPermissions w s =
    (if platform_os w = Android then
       (case permission_request w of
          Resolves granted \<Rightarrow>
            (if granted \<noteq> GRANTED then
               (False, setStatus ERROR
                  (setError ''Location permission denied. Cannot scan for WiFi.'' s))
             else (True, s))
        | Rejects m \<Rightarrow>
            (False, setStatus ERROR (setError ''Error requesting location permission.'' s)))
     else (True, s))"

text \<open>
  JavaScript truthiness of an optional string: \<^verbatim>\<open>undefined\<close> and the empty string are
  falsy.
\<close>

definition truthy :: "string option \<Rightarrow> bool" where
  "truthy v = (case v of None \<Rightarrow> False | Some t \<Rightarrow> t \<noteq> [])"

definition startsWith :: "string \<Rightarrow> string \<Rightarrow> bool" where
  "startsWith t p = (take (length p) t = p)"

text \<open>\<^verbatim>\<open>checkNetwork\<close> (lines 117-160).\<close>

definition checkNetwork :: "env \<Rightarrow> app \<Rightarrow> bool \<times> app" where
  \<open>checkNetwork w s =
    (let s1 = setError '''' s in
     case netinfo_fetch w of
       Rejects m \<Rightarrow>
         (False, setStatus ERROR (setError (''Failed to check network status: '' @ m) s1))
     | Resolves state \<Rightarrow>
         (if isConnected state \<noteq> Some True then
            (False, setStatus ERROR (setError ''No network connection.'' s1))
          else if link_type state \<noteq> ''wifi'' then
            (False, setStatus ERROR (setError ''Please connect to a WiFi network.'' s1))
          else
            (case ssid state of
               Some name \<Rightarrow>
                 (if platform_os w = Android \<and> truthy (Some name)
                     \<and> \<not> startsWith name ''TELLO-'' then
                    (False, setStatus ERROR (setError
                       (''Connected to "'' @ name @
                        ''". Please connect to the Tello drone's WiFi network (starts with TELLO-).'')
                       s1))
                  else (True, s1))
             | None \<Rightarrow> (True, s1))))\<close>

subsection \<open>The Command Channel\<close>

text \<open>
  \<^verbatim>\<open>sendCommand\<close> (lines 163-181): the promise rejects when no socket is stored or
  when the send callback reports \<^verbatim>\<open>err\<close>, and resolves as soon as the callback
  reports none. The first component is the rejection's message.
\<close>

definition sendCommand :: "env \<Rightarrow> string \<Rightarrow> app \<Rightarrow> string option \<times> app" where
  "sendCommand w command s =
    (case commandSocket s of
       None \<Rightarrow> (Some ''Socket not initialized'', s)
     | Some k \<Rightarrow>
         (let s1 = call (Send k command 0 (length command) TELLO_COMMAND_PORT TELLO_IP) s
          in (send_err w command, s1)))"

text \<open>
  \<^verbatim>\<open>dgram.createSocket\<close> and the two \<^verbatim>\<open>on\<close> registrations (lines 191-206); the
  handlers registered are \<open>socketErrorHandler\<close> and \<open>socketMessageHandler\<close> below.
\<close>

definition createSocket :: "app \<Rightarrow> app" where
  "createSocket s =
    (call (CreateSocket (created s)) s)
      \<lparr>commandSocket := Some (created s), created := Suc (created s)\<rparr>"

text \<open>
  The bind step of \<^verbatim>\<open>initializeDrone\<close> (lines 208-218). The message interpolates
  \<^verbatim>\<open>LOCAL_COMMAND_PORT_BIND\<close>, which is 9000. Calling \<^verbatim>\<open>bind\<close> on an empty ref is
  a TypeError; the ref was set three statements earlier.
\<close>

definition bindSocket :: "env \<Rightarrow> app \<Rightarrow> string option \<times> app" where
  "bindSocket w s =
    (case commandSocket s of
       None \<Rightarrow> (Some ''null is not an object'', s)
     | Some k \<Rightarrow>
         (let s1 = call (Bind k (Some LOCAL_COMMAND_PORT_BIND)) s in
          case bind_err w of
            Some m \<Rightarrow> (Some (''Failed to bind socket to port 9000: '' @ m), s1)
          | None \<Rightarrow> (None, s1)))"

subsection \<open>The transcode pipeline\<close>

text \<open>
  The argument template, with \<^verbatim>\<open>LOCAL_VIDEO_INPUT_PORT\<close> (11111) and
  \<^verbatim>\<open>LOCAL_VIDEO_OUTPUT_HTTP_PORT\<close> (11112) interpolated.
\<close>

definition ffmpegCommand :: string where
  "ffmpegCommand = ''-f h264 -analyzeduration 2000000 -probesize 2000000 -fflags discardcorrupt -fflags nobuffer -flags low_delay -avioflags direct -i udp://0.0.0.0:11111 -c:v copy -muxdelay 0 -muxpreload 0 -f mpegts -listen 1 http://127.0.0.1:11112''"

text \<open>
  \<^verbatim>\<open>startFFmpeg\<close> (lines 243-303), up to the point where the session is launched and
  its identifier stored. The status is not touched on success (lines 293-295).
\<close>

definition startFFmpeg :: "env \<Rightarrow> app \<Rightarrow> app" where
  "startFFmpeg w s =
    (let s1 = call (ExecuteAsync ffmpegCommand) s in
     case execute_async w of
       Resolves sid \<Rightarrow> s1\<lparr>ffmpegSessionId := Some sid\<rparr>
     | Rejects m \<Rightarrow>
         cleanup (setStatus ERROR (setError (''Failed to start FFmpeg: '' @ m) s1)))"

text \<open>
  The completion callback handed to \<^verbatim>\<open>executeAsync\<close> (lines 255-285), for a session
  that ended with return code \<open>rc\<close> and identifier \<open>sessionId\<close>. The success and the
  cancel branch only log.
\<close>

definition ffmpegCompleteCallback :: "return_code \<Rightarrow> session \<Rightarrow> app \<Rightarrow> app" where
  "ffmpegCompleteCallback rc sessionId s =
    (let s1 = (if rc = Success then s
               else if rc = Cancelled then s
               else setStatus ERROR (setError ''FFmpeg processing error. Check logs.'' s))
     in if ffmpegSessionId s1 = Some sessionId then s1\<lparr>ffmpegSessionId := None\<rparr> else s1)"

subsection \<open>The connect attempt\<close>

text \<open>
  The \<^verbatim>\<open>try\<close> block of \<^verbatim>\<open>initializeDrone\<close> (lines 188-231). The first component is
  the message of the error thrown, the second the state at that point.
\<close>

definition initializeDrone_try :: "env \<Rightarrow> app \<Rightarrow> string option \<times> app" where
  "initializeDrone_try w s =
    (let s1 = createSocket s in
     case bindSocket w s1 of
       (Some m, s2) \<Rightarrow> (Some m, s2)
     | (None, s2) \<Rightarrow>
    (case sendCommand w ''command'' s2 of
       (Some m, s3) \<Rightarrow> (Some m, s3)
     | (None, s3) \<Rightarrow>
    (let s4 = call (SetTimeout 500) s3 in
     case sendCommand w ''streamon'' s4 of
       (Some m, s5) \<Rightarrow> (Some m, s5)
     | (None, s5) \<Rightarrow>
    (let s6 = call (SetTimeout 500) s5;
         s7 = setStatus CONNECTED s6
     in (None, startFFmpeg w s7)))))"

text \<open>\<^verbatim>\<open>initializeDrone\<close> (lines 184-240).\<close>

definition initializeDrone :: "env \<Rightarrow> app \<Rightarrow> app" where
  "initializeDrone w s =
    (let s1 = setError '''' (setStatus CONNECTING s) in
     case initializeDrone_try w s1 of
       (None, s2) \<Rightarrow> s2
     | (Some m, s2) \<Rightarrow>
         cleanup (setStatus ERROR (setError (''Failed to initialize drone: '' @ m) s2)))"

text \<open>The handler of the socket's \<^verbatim>\<open>error\<close> event (lines 194-200).\<close>

definition socketErrorHandler :: "string \<Rightarrow> app \<Rightarrow> app" where
  "socketErrorHandler m s =
    cleanup (setStatus ERROR (setError (''UDP Socket error: '' @ m) s))"

text \<open>The handler of the socket's \<^verbatim>\<open>message\<close> event (lines 203-206) only logs.\<close>

definition socketMessageHandler :: "string \<Rightarrow> app \<Rightarrow> app" where
  "socketMessageHandler msg s = s"

subsection \<open>Buttons and player callbacks\<close>

text \<open>\<^verbatim>\<open>handleConnectPress\<close> (lines 306-324).\<close>

definition handleConnectPress :: "env \<Rightarrow> app \<Rightarrow> app" where
  "handleConnectPress w s =
    (if status s = CONNECTING \<or> status s = CONNECTED \<or> status s = STREAMING then s
     else
       (let s1 = setStatus CONNECTING (setError '''' s) in
        case checkPermissions w s1 of
          (False, s2) \<Rightarrow> s2
        | (True, s2) \<Rightarrow>
            (case checkNetwork w s2 of
               (False, s3) \<Rightarrow> s3
             | (True, s3) \<Rightarrow> initializeDrone w s3)))"

text \<open>\<^verbatim>\<open>handleDisconnectPress\<close> (lines 327-330).\<close>

definition handleDisconnectPress :: "app \<Rightarrow> app" where
  "handleDisconnectPress s = cleanup s"

text \<open>The effect's destructor (lines 80-82) runs \<^verbatim>\<open>cleanup\<close> when the component unmounts.\<close>

definition unmount :: "app \<Rightarrow> app" where
  "unmount s = cleanup s"

text \<open>\<^verbatim>\<open>onVideoLoad\<close> (lines 333-339).\<close>

definition onVideoLoad :: "app \<Rightarrow> app" where
  "onVideoLoad s =
    (if status s \<noteq> STREAMING then setError '''' (setStatus STREAMING s) else s)"

text \<open>
  \<^verbatim>\<open>onVideoError\<close> (lines 341-348). The argument is \<^verbatim>\<open>err.error\<close>, absent or an
  object with two optional strings; \<^verbatim>\<open>||\<close> skips a falsy operand.
\<close>

definition orElse :: "string option \<Rightarrow> string \<Rightarrow> string" where
  "orElse v d = (case v of None \<Rightarrow> d | Some t \<Rightarrow> (if t = [] then d else t))"

definition videoErrorDetail :: "video_error option \<Rightarrow> string" where
  "videoErrorDetail err =
    (case err of
       None \<Rightarrow> ''Unknown video error''
     | Some e \<Rightarrow>
         orElse (localizedFailureReason e)
           (orElse (localizedDescription e) ''Unknown video error''))"

definition onVideoError :: "video_error option \<Rightarrow> app \<Rightarrow> app" where
  "onVideoError err s =
    setStatus CONNECTED (setError (''Video playback error: '' @ videoErrorDetail err) s)"

subsection \<open>Events\<close>

text \<open>
  The events the component reacts to, each with the handler the source wires to it.
\<close>

datatype event =
    ConnectPress env
  | DisconnectPress
  | Unmount
  | FFmpegCompleted return_code session
  | SocketError string
  | SocketMessage string
  | VideoLoad
  | VideoError "video_error option"

definition dispatch :: "event \<Rightarrow> app \<Rightarrow> app" where
  "dispatch e s =
    (case e of
       ConnectPress w \<Rightarrow> handleConnectPress w s
     | DisconnectPress \<Rightarrow> handleDisconnectPress s
     | Unmount \<Rightarrow> unmount s
     | FFmpegCompleted rc sid \<Rightarrow> ffmpegCompleteCallback rc sid s
     | SocketError m \<Rightarrow> socketErrorHandler m s
     | SocketMessage msg \<Rightarrow> socketMessageHandler msg s
     | VideoLoad \<Rightarrow> onVideoLoad s
     | VideoError err \<Rightarrow> onVideoError err s)"

fun run :: "event list \<Rightarrow> app \<Rightarrow> app" where
  "run [] s = s"
| "run (e # es) s = run es (dispatch e s)"

text \<open>
  The sockets open after a log of calls: those created and not closed since, oldest
  first.
\<close>

fun open_after :: "socket list \<Rightarrow> effect list \<Rightarrow> socket list" where
  "open_after acc [] = acc"
| "open_after acc (CreateSocket k # es) = open_after (acc @ [k]) es"
| "open_after acc (Close k # es) = open_after (removeAll k acc) es"
| "open_after acc (e # es) = open_after acc es"

definition open_sockets :: "effect list \<Rightarrow> socket list" where
  "open_sockets es = open_after [] es"

text \<open>
  The command datagrams in a log of calls, oldest first: text, destination port and
  destination address of every send.
\<close>

fun sent :: "effect list \<Rightarrow> (string \<times> nat \<times> string) list" where
  "sent [] = []"
| "sent (Send k text off len port addr # es) = (text, port, addr) # sent es"
| "sent (e # es) = sent es"

text \<open>
  The single-channel discipline, checked along a log of calls that starts with the
  sockets \<open>acc\<close> open: at every point at most one socket is open, and a socket is
  created only when none is open.
\<close>

fun exclusive :: "socket list \<Rightarrow> effect list \<Rightarrow> bool" where
  "exclusive acc [] = (length acc \<le> 1)"
| "exclusive acc (CreateSocket k # es) = (acc = [] \<and> exclusive [k] es)"
| "exclusive acc (Close k # es) = (length acc \<le> 1 \<and> exclusive (removeAll k acc) es)"
| "exclusive acc (e # es) = (length acc \<le> 1 \<and> exclusive acc es)"

text \<open>The event that delivers a failed terminal outcome of the pipeline.\<close>

fun pipeline_failed :: "event \<Rightarrow> bool" where
  "pipeline_failed (FFmpegCompleted rc sid) = (rc = Failed)"
| "pipeline_failed e = False"

text \<open>
  The invariant behind the discipline: the log obeys it, the sockets open after the
  log are exactly the one the ref holds (none when the ref is empty), and the ref is
  empty whenever the connect button is enabled (status Disconnected or Error).
\<close>

definition holds :: "socket option \<Rightarrow> socket list" where
  "holds v = (case v of None \<Rightarrow> [] | Some k \<Rightarrow> [k])"

definition tracked :: "app \<Rightarrow> bool" where
  "tracked s = (exclusive [] (calls s) \<and> open_after [] (calls s) = holds (commandSocket s))"

definition channel_inv :: "app \<Rightarrow> bool" where
  "channel_inv s =
    (tracked s \<and> (status s = DISCONNECTED \<or> status s = ERROR \<longrightarrow> commandSocket s = None))"

section \<open>The flag-based variant\<close>

text \<open>
  \<^verbatim>\<open>src/App.jsx\<close> keeps two booleans instead of a status. Its \<^verbatim>\<open>handleConnect\<close>
  calls a function \<^verbatim>\<open>checkPermissions\<close> that the file does not define, so only the
  functions behind it are embedded.
\<close>

record app_jsx =
  isConnected_jsx :: bool
  isStreaming_jsx :: bool
  error_jsx :: string
  socket_jsx :: "socket option"
  ffmpegSessionId_jsx :: "session option"
  created_jsx :: nat
  calls_jsx :: "effect list"

definition initial_jsx :: app_jsx where
  "initial_jsx = \<lparr>isConnected_jsx = False, isStreaming_jsx = False, error_jsx = '''',
     socket_jsx = None, ffmpegSessionId_jsx = None, created_jsx = 0, calls_jsx = []\<rparr>"

definition call_jsx :: "effect \<Rightarrow> app_jsx \<Rightarrow> app_jsx" where
  "call_jsx e s = s\<lparr>calls_jsx := calls_jsx s @ [e]\<rparr>"

definition TELLO_PORT :: nat where
  "TELLO_PORT = 8889"

text \<open>\<^verbatim>\<open>checkNetwork\<close> of \<^verbatim>\<open>App.jsx\<close> (lines 28-59).\<close>

definition checkNetwork_jsx :: "env \<Rightarrow> app_jsx \<Rightarrow> bool \<times> app_jsx" where
  \<open>checkNetwork_jsx w s =
    (case netinfo_fetch w of
       Rejects m \<Rightarrow> (False, s\<lparr>error_jsx := ''Failed to check network status: '' @ m\<rparr>)
     | Resolves state \<Rightarrow>
         (if isConnected state \<noteq> Some True then
            (False, s\<lparr>error_jsx := ''No network connection''\<rparr>)
          else if link_type state \<noteq> ''wifi'' then
            (False, s\<lparr>error_jsx := ''Please connect to the Tello drone's WiFi network''\<rparr>)
          else
            (case ssid state of
               Some name \<Rightarrow>
                 (if platform_os w = Android \<and> truthy (Some name)
                     \<and> \<not> startsWith name ''TELLO-'' then
                    (False, s\<lparr>error_jsx :=
                       ''Please connect to the Tello drone's WiFi network (TELLO-*)''\<rparr>)
                  else (True, s))
             | None \<Rightarrow> (True, s))))\<close>

text \<open>
  \<^verbatim>\<open>startFFmpeg\<close> of \<^verbatim>\<open>App.jsx\<close> (lines 140-170): after the launch it waits 2000 and
  raises the streaming flag.
\<close>

definition startFFmpeg_jsx :: "env \<Rightarrow> app_jsx \<Rightarrow> app_jsx" where
  "startFFmpeg_jsx w s =
    (let s1 = call_jsx (ExecuteAsync ffmpegCommand) s in
     case execute_async w of
       Resolves sid \<Rightarrow>
         (let s2 = s1\<lparr>ffmpegSessionId_jsx := Some sid\<rparr>;
              s3 = call_jsx (SetTimeout 2000) s2
          in s3\<lparr>isStreaming_jsx := True\<rparr>)
     | Rejects m \<Rightarrow>
         (call_jsx (Alert ''Error'' ''Failed to start video stream'') s1)
           \<lparr>isStreaming_jsx := False\<rparr>)"

text \<open>
  The loop over \<^verbatim>\<open>['command', 'streamon']\<close> (lines 104-120): send, then wait 500; a
  send error leaves the loop with the error's message.
\<close>

fun sendCommands_jsx :: "env \<Rightarrow> string list \<Rightarrow> app_jsx \<Rightarrow> string option \<times> app_jsx" where
  "sendCommands_jsx w [] s = (None, s)"
| "sendCommands_jsx w (cmd # cmds) s =
    (case socket_jsx s of
       None \<Rightarrow> (Some ''null is not an object'', s)
     | Some k \<Rightarrow>
         (let s1 = call_jsx (Send k cmd 0 (length cmd) TELLO_PORT TELLO_IP) s in
          case send_err w cmd of
            Some m \<Rightarrow> (Some m, s1)
          | None \<Rightarrow> sendCommands_jsx w cmds (call_jsx (SetTimeout 500) s1)))"

text \<open>The \<^verbatim>\<open>try\<close> block of \<^verbatim>\<open>initializeDrone\<close> of \<^verbatim>\<open>App.jsx\<close> (lines 72-124).\<close>

definition initializeDrone_try_jsx :: "env \<Rightarrow> app_jsx \<Rightarrow> string option \<times> app_jsx" where
  "initializeDrone_try_jsx w s =
    (let k = created_jsx s;
         s1 = (call_jsx (CreateSocket k) s)\<lparr>socket_jsx := Some k, created_jsx := Suc k\<rparr>;
         s2 = call_jsx (Bind k None) s1
     in case bind_err w of
          Some m \<Rightarrow> (Some m, s2)
        | None \<Rightarrow>
            (case sendCommands_jsx w [''command'', ''streamon''] s2 of
               (Some m, s3) \<Rightarrow> (Some m, s3)
             | (None, s3) \<Rightarrow>
                 (None, startFFmpeg_jsx w (s3\<lparr>isConnected_jsx := True, error_jsx := ''''\<rparr>))))"

text \<open>\<^verbatim>\<open>initializeDrone\<close> of \<^verbatim>\<open>App.jsx\<close> (lines 71-138).\<close>

definition initializeDrone_jsx :: "env \<Rightarrow> app_jsx \<Rightarrow> app_jsx" where
  "initializeDrone_jsx w s =
    (case initializeDrone_try_jsx w s of
       (None, s1) \<Rightarrow> s1
     | (Some m, s1) \<Rightarrow>
         (let errorMsg = ''Failed to initialize drone: '' @ m;
              s2 = s1\<lparr>error_jsx := errorMsg\<rparr>;
              s3 = call_jsx (Alert ''Initialization Error'' errorMsg) s2;
              s4 = (case socket_jsx s3 of
                      None \<Rightarrow> s3
                    | Some k \<Rightarrow> (call_jsx (Close k) s3)\<lparr>socket_jsx := None\<rparr>)
          in s4\<lparr>isConnected_jsx := False\<rparr>))"

section \<open>Sample inputs\<close>

definition tello_wifi :: netinfo where
  "tello_wifi = \<lparr>isConnected = Some True, link_type = ''wifi'', ssid = Some ''TELLO-C5A1B2''\<rparr>"

definition link_down :: netinfo where
  "link_down = \<lparr>isConnected = Some False, link_type = ''none'', ssid = None\<rparr>"

definition env_ok :: env where
  "env_ok = \<lparr>platform_os = Android, permission_request = Resolves GRANTED,
     netinfo_fetch = Resolves tello_wifi, bind_err = None, send_err = (\<lambda>c. None),
     execute_async = Resolves 1\<rparr>"

definition env_bind_fails :: env where
  "env_bind_fails = env_ok\<lparr>bind_err := Some ''EADDRINUSE''\<rparr>"

definition env_link_down :: env where
  "env_link_down = env_ok\<lparr>netinfo_fetch := Resolves link_down\<rparr>"

definition connected_demo :: app where
  "connected_demo = handleConnectPress env_ok initial"

definition streaming_demo :: app where
  "streaming_demo = onVideoLoad connected_demo"


definition error_demo :: app where
  "error_demo = handleConnectPress env_link_down initial"

section \<open>Properties\<close>

lemmas state_defs = setStatus_def setError_def call_def call_jsx_def

lemmas const_defs = TELLO_IP_def TELLO_COMMAND_PORT_def LOCAL_COMMAND_PORT_BIND_def
  TELLO_PORT_def

lemmas sample_defs = env_ok_def env_bind_fails_def env_link_down_def tello_wifi_def
  link_down_def initial_def initial_jsx_def

lemmas handler_defs = cleanup_def checkPermissions_def checkNetwork_def truthy_def
  startsWith_def sendCommand_def createSocket_def bindSocket_def startFFmpeg_def
  initializeDrone_try_def initializeDrone_def handleConnectPress_def

lemma connected_demo_value:
  "connected_demo = \<lparr>status = CONNECTED, error = '''', commandSocket = Some 0,
     ffmpegSessionId = Some 1, created = 1,
     calls = [CreateSocket 0, Bind 0 (Some 9000),
       Send 0 ''command'' 0 7 8889 ''192.168.10.1'', SetTimeout 500,
       Send 0 ''streamon'' 0 8 8889 ''192.168.10.1'', SetTimeout 500,
       ExecuteAsync ffmpegCommand]\<rparr>"
  by (simp add: connected_demo_def handler_defs state_defs const_defs sample_defs)

lemma streaming_demo_value:
  "streaming_demo = connected_demo\<lparr>status := STREAMING\<rparr>"
  by (simp add: streaming_demo_def onVideoLoad_def connected_demo_value state_defs)


lemma error_demo_value:
  "error_demo = initial\<lparr>status := ERROR, error := ''No network connection.''\<rparr>"
  by (simp add: error_demo_def handler_defs state_defs sample_defs)

subsection \<open>Teardown\<close>

lemma cleanup_fields:
  "status (cleanup s) = DISCONNECTED"
  "error (cleanup s) = []"
  "commandSocket (cleanup s) = None"
  "created (cleanup s) = created s"
  by (simp_all add: cleanup_def state_defs Let_def split: option.splits)


lemma cleanup_calls:
  "calls (cleanup s) = calls s
     @ (case ffmpegSessionId s of
          None \<Rightarrow> []
        | Some sid \<Rightarrow> (if sid = 0 then [] else [Cancel sid]))
     @ (case commandSocket s of None \<Rightarrow> [] | Some k \<Rightarrow> [Close k])"
  by (simp add: cleanup_def state_defs Let_def split: option.splits)





subsection \<open>Player callbacks\<close>

text \<open>
  C5. When the player reports a playback error while status is Streaming, status
  becomes Connected, not Error, the error message is set to the playback error text,
  and nothing is torn down: the socket handle and the session handle keep their
  values and no call (close, cancel or other) is issued.
\<close>

theorem playback_error_keeps_resources:
  assumes "status s = STREAMING"
  shows "status (onVideoError err s) = CONNECTED
    \<and> status (onVideoError err s) \<noteq> ERROR
    \<and> error (onVideoError err s) = ''Video playback error: '' @ videoErrorDetail err
    \<and> error (onVideoError err s) \<noteq> []
    \<and> commandSocket (onVideoError err s) = commandSocket s
    \<and> ffmpegSessionId (onVideoError err s) = ffmpegSessionId s
    \<and> calls (onVideoError err s) = calls s"
  by (simp add: onVideoError_def state_defs)

theorem playback_error_keeps_resources_witness:
  "status streaming_demo = STREAMING
    \<and> status (onVideoError None streaming_demo) = CONNECTED
    \<and> error (onVideoError None streaming_demo) = ''Video playback error: Unknown video error''
    \<and> commandSocket (onVideoError None streaming_demo) = Some 0
    \<and> ffmpegSessionId (onVideoError None streaming_demo) = Some 1
    \<and> calls (onVideoError None streaming_demo) = calls streaming_demo"
proof -
  have h: "status streaming_demo = STREAMING"
    by (simp add: streaming_demo_value)
  show ?thesis
    using h playback_error_keeps_resources [OF h, of None]
    by (simp add: streaming_demo_value connected_demo_value videoErrorDetail_def)
qed

text \<open>
  C4, as the code has it. The ready signal received while status is Connecting or
  Disconnected (or any other status than Streaming, Error included) is not ignored:
  status becomes Streaming and the error message is cleared; handles and the call log
  are untouched. The signal changes nothing exactly when status is already Streaming.
\<close>

theorem ready_out_of_order_advances:
  "(status s = CONNECTING \<or> status s = DISCONNECTED
      \<longrightarrow> onVideoLoad s = s\<lparr>status := STREAMING, error := []\<rparr>)
    \<and> (status s \<noteq> STREAMING \<longrightarrow> onVideoLoad s = s\<lparr>status := STREAMING, error := []\<rparr>)
    \<and> (status s = STREAMING \<longrightarrow> onVideoLoad s = s)
    \<and> (onVideoLoad s = s \<longrightarrow> status s = STREAMING)"
proof (intro conjI impI)
  assume "status s = CONNECTING \<or> status s = DISCONNECTED"
  then show "onVideoLoad s = s\<lparr>status := STREAMING, error := []\<rparr>"
    by (auto simp: onVideoLoad_def state_defs)
next
  assume "status s \<noteq> STREAMING"
  then show "onVideoLoad s = s\<lparr>status := STREAMING, error := []\<rparr>"
    by (simp add: onVideoLoad_def state_defs)
next
  assume "status s = STREAMING"
  then show "onVideoLoad s = s"
    by (simp add: onVideoLoad_def)
next
  assume same: "onVideoLoad s = s"
  show "status s = STREAMING"
  proof (rule ccontr)
    assume other: "status s \<noteq> STREAMING"
    then have "status (onVideoLoad s) = STREAMING"
      by (simp add: onVideoLoad_def state_defs)
    with same other show False by simp
  qed
qed

theorem ready_out_of_order_advances_witness:
  "status initial = DISCONNECTED
    \<and> onVideoLoad initial = initial\<lparr>status := STREAMING, error := []\<rparr>
    \<and> status (setStatus CONNECTING initial) = CONNECTING
    \<and> onVideoLoad (setStatus CONNECTING initial)
        = (setStatus CONNECTING initial)\<lparr>status := STREAMING, error := []\<rparr>
    \<and> status error_demo = ERROR
    \<and> status error_demo \<noteq> STREAMING
    \<and> onVideoLoad error_demo = error_demo\<lparr>status := STREAMING, error := []\<rparr>
    \<and> status streaming_demo = STREAMING
    \<and> onVideoLoad streaming_demo = streaming_demo"
proof -
  have h1: "status initial = DISCONNECTED"
    by (simp add: initial_def)
  have h2: "status (setStatus CONNECTING initial) = CONNECTING"
    by (simp add: setStatus_def)
  have h3: "status error_demo = ERROR"
    by (simp add: error_demo_value)
  then have h3': "status error_demo \<noteq> STREAMING"
    by simp
  have h4: "status streaming_demo = STREAMING"
    by (simp add: streaming_demo_value)
  have a: "onVideoLoad initial = initial\<lparr>status := STREAMING, error := []\<rparr>"
    using h1 ready_out_of_order_advances [of initial] by blast
  have b: "onVideoLoad (setStatus CONNECTING initial)
      = (setStatus CONNECTING initial)\<lparr>status := STREAMING, error := []\<rparr>"
    using h2 ready_out_of_order_advances [of "setStatus CONNECTING initial"] by blast
  have c: "onVideoLoad error_demo = error_demo\<lparr>status := STREAMING, error := []\<rparr>"
    using h3' ready_out_of_order_advances [of error_demo] by blast
  have d: "onVideoLoad streaming_demo = streaming_demo"
    using h4 ready_out_of_order_advances [of streaming_demo] by blast
  show ?thesis
    using h1 h2 h3 h3' h4 a b c d by blast
qed

text \<open>
  C4, as stated, fails: in the initial Disconnected state, and in the same state with
  status Connecting, the ready signal changes the status to Streaming.
\<close>

theorem ready_ignored_counterexample:
  "status (onVideoLoad initial) = STREAMING
    \<and> onVideoLoad initial \<noteq> initial
    \<and> status (onVideoLoad (setStatus CONNECTING initial)) = STREAMING
    \<and> onVideoLoad (setStatus CONNECTING initial) \<noteq> setStatus CONNECTING initial"
  by (simp add: onVideoLoad_def state_defs initial_def)

subsection \<open>Pipeline completion\<close>

text \<open>
  C10. The completion callback clears the stored session identifier exactly when it
  is the identifier of the session that completed; the identifier of another (later)
  session stays stored.
\<close>

theorem completion_clears_only_own_session:
  "ffmpegSessionId (ffmpegCompleteCallback rc sid s)
      = (if ffmpegSessionId s = Some sid then None else ffmpegSessionId s)
    \<and> (\<forall>later. ffmpegSessionId s = Some later \<and> later \<noteq> sid
          \<longrightarrow> ffmpegSessionId (ffmpegCompleteCallback rc sid s) = Some later)"
  by (simp add: ffmpegCompleteCallback_def state_defs Let_def)

theorem completion_clears_only_own_session_witness:
  "ffmpegSessionId (connected_demo\<lparr>ffmpegSessionId := Some 2\<rparr>) = Some 2 \<and> (2::nat) \<noteq> 1
    \<and> ffmpegSessionId (ffmpegCompleteCallback Failed 1
         (connected_demo\<lparr>ffmpegSessionId := Some 2\<rparr>)) = Some 2
    \<and> ffmpegSessionId (ffmpegCompleteCallback Failed 1 connected_demo) = None"
  using completion_clears_only_own_session
          [of Failed 1 "connected_demo\<lparr>ffmpegSessionId := Some 2\<rparr>"]
        completion_clears_only_own_session [of Failed 1 connected_demo]
  by (simp add: connected_demo_value)

text \<open>
  C2, as the code has it. When the pipeline reports a failed outcome while status is
  Streaming, status becomes Error with the message of the pipeline failure, and the
  stored session identifier is cleared when it is that session's; the Command Channel
  is left as it is: the socket handle keeps its value and no call is issued.
\<close>

theorem pipeline_failure_keeps_channel:
  assumes "status s = STREAMING"
  shows "status (ffmpegCompleteCallback Failed sid s) = ERROR
    \<and> error (ffmpegCompleteCallback Failed sid s) = ''FFmpeg processing error. Check logs.''
    \<and> ffmpegSessionId (ffmpegCompleteCallback Failed sid s)
        = (if ffmpegSessionId s = Some sid then None else ffmpegSessionId s)
    \<and> commandSocket (ffmpegCompleteCallback Failed sid s) = commandSocket s
    \<and> calls (ffmpegCompleteCallback Failed sid s) = calls s"
  by (simp add: ffmpegCompleteCallback_def state_defs Let_def)

theorem pipeline_failure_keeps_channel_witness:
  "status streaming_demo = STREAMING
    \<and> status (ffmpegCompleteCallback Failed 1 streaming_demo) = ERROR
    \<and> ffmpegSessionId (ffmpegCompleteCallback Failed 1 streaming_demo) = None
    \<and> commandSocket (ffmpegCompleteCallback Failed 1 streaming_demo) = Some 0
    \<and> calls (ffmpegCompleteCallback Failed 1 streaming_demo) = calls streaming_demo"
proof -
  have h: "status streaming_demo = STREAMING"
    by (simp add: streaming_demo_value)
  show ?thesis
    using h pipeline_failure_keeps_channel [OF h, of 1]
    by (simp add: streaming_demo_value connected_demo_value)
qed

text \<open>
  C2, as stated, fails: after a failed outcome for session 1 in a Streaming state that
  holds socket 0 and session 1, socket 0 is still stored and still open, and no close
  was issued.
\<close>

theorem pipeline_failure_closes_channel_counterexample:
  "status streaming_demo = STREAMING
    \<and> commandSocket (ffmpegCompleteCallback Failed 1 streaming_demo) = Some 0
    \<and> open_sockets (calls (ffmpegCompleteCallback Failed 1 streaming_demo)) = [0]
    \<and> Close 0 \<notin> set (calls (ffmpegCompleteCallback Failed 1 streaming_demo))"
  by (simp add: ffmpegCompleteCallback_def state_defs Let_def streaming_demo_value
      connected_demo_value open_sockets_def)

subsection \<open>Failure of the handshake\<close>

text \<open>
  Whenever the bind or one of the two sends fails, the attempt ends with status
  Disconnected, an empty error message and no socket stored; the last call issued is
  the close of the socket the attempt created.
\<close>

lemma handshake_failure_clears_error:
  assumes "bind_err w \<noteq> None \<or> send_err w ''command'' \<noteq> None
    \<or> send_err w ''streamon'' \<noteq> None"
  shows "status (initializeDrone w s) = DISCONNECTED
    \<and> error (initializeDrone w s) = []
    \<and> commandSocket (initializeDrone w s) = None
    \<and> last (calls (initializeDrone w s)) = Close (created s)"
proof -
  obtain m s2 where t: "initializeDrone_try w (setError [] (setStatus CONNECTING s)) = (Some m, s2)"
    and k: "commandSocket s2 = Some (created s)"
    using assms
    by (cases "bind_err w"; cases "send_err w ''command''"; cases "send_err w ''streamon''")
       (simp_all add: initializeDrone_try_def bindSocket_def sendCommand_def createSocket_def
          state_defs Let_def)
  show ?thesis
    using t k
    by (simp add: initializeDrone_def Let_def cleanup_fields cleanup_calls state_defs)
qed

text \<open>
  C1 at a failing bind: the connect attempt closes the socket it created, but ends
  with status Disconnected and an empty error message, because the teardown that
  follows the recording of the failure resets both.
\<close>

theorem bind_failure_ends_disconnected:
  "handleConnectPress env_bind_fails initial =
     \<lparr>status = DISCONNECTED, error = [], commandSocket = None, ffmpegSessionId = None,
      created = 1, calls = [CreateSocket 0, Bind 0 (Some 9000), Close 0]\<rparr>"
  by (simp add: handler_defs state_defs const_defs sample_defs)

subsection \<open>One Command Channel at a time\<close>

lemma exclusive_bound: "exclusive acc es \<Longrightarrow> length acc \<le> 1"
  by (cases "(acc, es)" rule: exclusive.cases) auto

lemma open_after_append:
  "open_after acc (es @ es') = open_after (open_after acc es) es'"
  by (induction acc es rule: open_after.induct) auto

lemma exclusive_append:
  "exclusive acc (es @ es') = (exclusive acc es \<and> exclusive (open_after acc es) es')"
  by (induction acc es rule: exclusive.induct) (auto dest: exclusive_bound)

lemma tracked_setStatus [simp]: "tracked (setStatus v s) = tracked s"
  by (simp add: tracked_def setStatus_def)

lemma tracked_setError [simp]: "tracked (setError v s) = tracked s"
  by (simp add: tracked_def setError_def)

lemma socket_setStatus [simp]: "commandSocket (setStatus v s) = commandSocket s"
  by (simp add: setStatus_def)

lemma socket_setError [simp]: "commandSocket (setError v s) = commandSocket s"
  by (simp add: setError_def)

lemma status_setStatus [simp]: "status (setStatus v s) = v"
  by (simp add: setStatus_def)

lemma status_setError [simp]: "status (setError v s) = status s"
  by (simp add: setError_def)

lemma tracked_cleanup: "tracked s \<Longrightarrow> tracked (cleanup s)"
  unfolding tracked_def
  by (auto simp: cleanup_fields cleanup_calls exclusive_append open_after_append holds_def
      split: option.splits)

lemma inv_cleanup: "tracked s \<Longrightarrow> channel_inv (cleanup s)"
  by (simp add: channel_inv_def tracked_cleanup cleanup_fields)


lemma tracked_call:
  "tracked s \<Longrightarrow> (\<forall>k. e \<noteq> CreateSocket k \<and> e \<noteq> Close k) \<Longrightarrow> tracked (call e s)"
  unfolding tracked_def
  by (cases e) (auto simp: call_def exclusive_append open_after_append holds_def
      split: option.splits)

lemma socket_call [simp]: "commandSocket (call e s) = commandSocket s"
  by (simp add: call_def)

lemma status_call [simp]: "status (call e s) = status s"
  by (simp add: call_def)

lemma tracked_createSocket:
  "tracked s \<Longrightarrow> commandSocket s = None \<Longrightarrow> tracked (createSocket s)"
  unfolding tracked_def
  by (simp add: createSocket_def call_def exclusive_append open_after_append holds_def)

lemma socket_createSocket: "commandSocket (createSocket s) = Some (created s)"
  by (simp add: createSocket_def)

lemma tracked_bindSocket: "tracked s \<Longrightarrow> tracked (snd (bindSocket w s))"
  by (auto simp: bindSocket_def Let_def tracked_call split: option.splits)

lemma socket_bindSocket [simp]: "commandSocket (snd (bindSocket w s)) = commandSocket s"
  by (auto simp: bindSocket_def Let_def split: option.splits)

lemma tracked_sendCommand: "tracked s \<Longrightarrow> tracked (snd (sendCommand w c s))"
  by (auto simp: sendCommand_def Let_def tracked_call split: option.splits)

lemma socket_sendCommand [simp]: "commandSocket (snd (sendCommand w c s)) = commandSocket s"
  by (auto simp: sendCommand_def Let_def split: option.splits)

lemma tracked_session [simp]: "tracked (s\<lparr>ffmpegSessionId := v\<rparr>) = tracked s"
  by (simp add: tracked_def)

lemma inv_startFFmpeg:
  assumes "tracked s" "status s = CONNECTED"
  shows "channel_inv (startFFmpeg w s)"
proof (cases "execute_async w")
  case (Resolves sid)
  then show ?thesis
    using assms by (simp add: startFFmpeg_def Let_def channel_inv_def tracked_call)
next
  case (Rejects m)
  then show ?thesis
    using assms by (simp add: startFFmpeg_def Let_def inv_cleanup tracked_call)
qed

lemma inv_initializeDrone:
  assumes "tracked s" "commandSocket s = None"
  shows "channel_inv (initializeDrone w s)"
proof -
  let ?s0 = "setError [] (setStatus CONNECTING s)"
  let ?s1 = "createSocket ?s0"
  have t1: "tracked ?s1"
    using assms by (simp add: tracked_createSocket)
  obtain r2 s2 where b: "bindSocket w ?s1 = (r2, s2)" by force
  have t2: "tracked s2"
    using tracked_bindSocket [OF t1, of w] b by simp
  obtain r3 s3 where c: "sendCommand w ''command'' s2 = (r3, s3)" by force
  have t3: "tracked s3"
    using tracked_sendCommand [OF t2, of w "''command''"] c by simp
  let ?s4 = "call (SetTimeout 500) s3"
  have t4: "tracked ?s4"
    using t3 by (simp add: tracked_call)
  obtain r5 s5 where d: "sendCommand w ''streamon'' ?s4 = (r5, s5)" by force
  have t5: "tracked s5"
    using tracked_sendCommand [OF t4, of w "''streamon''"] d by simp
  let ?s7 = "setStatus CONNECTED (call (SetTimeout 500) s5)"
  have t7: "tracked ?s7" "status ?s7 = CONNECTED"
    using t5 by (simp_all add: tracked_call)
  have fin: "channel_inv (startFFmpeg w ?s7)"
    using t7 by (rule inv_startFFmpeg)
  show ?thesis
    using b c d t2 t3 t5 fin
    by (auto simp: initializeDrone_def initializeDrone_try_def Let_def inv_cleanup
        split: option.splits)
qed


lemma checkPermissions_cases:
  "checkPermissions w s = (True, s)
    \<or> (\<exists>m. checkPermissions w s = (False, setStatus ERROR (setError m s)))"
  by (auto simp: checkPermissions_def split: outcome.splits)

lemma checkNetwork_cases:
  "checkNetwork w s = (True, setError [] s)
    \<or> (\<exists>m. checkNetwork w s = (False, setStatus ERROR (setError m (setError [] s))))"
  by (auto simp: checkNetwork_def Let_def split: outcome.splits option.splits)

lemma inv_handleConnectPress:
  assumes "channel_inv s"
  shows "channel_inv (handleConnectPress w s)"
proof (cases "status s = CONNECTING \<or> status s = CONNECTED \<or> status s = STREAMING")
  case True
  then show ?thesis using assms by (simp add: handleConnectPress_def)
next
  case False
  then have idle: "status s = DISCONNECTED \<or> status s = ERROR"
    by (cases "status s") auto
  with assms have none: "commandSocket s = None" and tr: "tracked s"
    by (auto simp: channel_inv_def)
  let ?s1 = "setStatus CONNECTING (setError [] s)"
  have t1: "tracked ?s1" "commandSocket ?s1 = None"
    using none tr by simp_all
  show ?thesis
    using checkPermissions_cases [of w ?s1]
  proof
    assume p: "checkPermissions w ?s1 = (True, ?s1)"
    show ?thesis
      using checkNetwork_cases [of w ?s1]
    proof
      assume n: "checkNetwork w ?s1 = (True, setError [] ?s1)"
      have "channel_inv (initializeDrone w (setError [] ?s1))"
        using t1 by (intro inv_initializeDrone) simp_all
      then show ?thesis
        using False p n by (simp add: handleConnectPress_def)
    next
      assume "\<exists>m. checkNetwork w ?s1 = (False, setStatus ERROR (setError m (setError [] ?s1)))"
      then obtain m where
        n: "checkNetwork w ?s1 = (False, setStatus ERROR (setError m (setError [] ?s1)))" ..
      show ?thesis
        using False p n t1 by (simp add: handleConnectPress_def channel_inv_def)
    qed
  next
    assume "\<exists>m. checkPermissions w ?s1 = (False, setStatus ERROR (setError m ?s1))"
    then obtain m where p: "checkPermissions w ?s1 = (False, setStatus ERROR (setError m ?s1))" ..
    show ?thesis
      using False p t1 by (simp add: handleConnectPress_def channel_inv_def)
  qed
qed

lemma inv_tracked: "channel_inv s \<Longrightarrow> tracked s"
  by (simp add: channel_inv_def)

lemma inv_dispatch:
  assumes "channel_inv s" "\<not> pipeline_failed e"
  shows "channel_inv (dispatch e s)"
proof (cases e)
  case (ConnectPress w)
  then show ?thesis using assms by (simp add: dispatch_def inv_handleConnectPress)
next
  case DisconnectPress
  then show ?thesis
    using assms by (simp add: dispatch_def handleDisconnectPress_def inv_cleanup inv_tracked)
next
  case Unmount
  then show ?thesis
    using assms by (simp add: dispatch_def unmount_def inv_cleanup inv_tracked)
next
  case (FFmpegCompleted rc sid)
  then show ?thesis
    using assms by (cases rc) (simp_all add: dispatch_def ffmpegCompleteCallback_def
        channel_inv_def Let_def)
next
  case (SocketError m)
  then show ?thesis
    using assms by (simp add: dispatch_def socketErrorHandler_def inv_cleanup inv_tracked)
next
  case (SocketMessage msg)
  then show ?thesis using assms by (simp add: dispatch_def socketMessageHandler_def)
next
  case VideoLoad
  then show ?thesis
    using assms by (simp add: dispatch_def onVideoLoad_def channel_inv_def)
next
  case (VideoError err)
  then show ?thesis
    using assms by (simp add: dispatch_def onVideoError_def channel_inv_def)
qed

lemma inv_run:
  "channel_inv s \<Longrightarrow> \<forall>e\<in>set es. \<not> pipeline_failed e \<Longrightarrow> channel_inv (run es s)"
  by (induction es arbitrary: s) (simp_all add: inv_dispatch)

lemma inv_initial: "channel_inv initial"
  by (simp add: channel_inv_def tracked_def initial_def holds_def)

lemma guard_blocks:
  "status s = CONNECTING \<or> status s = CONNECTED \<or> status s = STREAMING
    \<Longrightarrow> handleConnectPress w s = s"
  by (simp add: handleConnectPress_def)

text \<open>
  Where the discipline does hold: along every sequence of events in which the
  pipeline delivers no failed outcome (connect and disconnect requests in any order
  and number, unmount, socket errors and datagrams, player callbacks, successful or
  cancelled pipeline completions), each handled to completion, at most one socket is
  open at every point of the call log and a socket is created only when none is open;
  the open socket is the one the ref holds; and a connect request arriving while
  status is Connecting, Connected or Streaming changes nothing.
\<close>

theorem single_channel_without_pipeline_failure:
  assumes "\<forall>e\<in>set es. \<not> pipeline_failed e"
  shows "exclusive [] (calls (run es initial))
    \<and> open_sockets (calls (run es initial))
        = (case commandSocket (run es initial) of None \<Rightarrow> [] | Some k \<Rightarrow> [k])
    \<and> (\<forall>w. status (run es initial) = CONNECTING \<or> status (run es initial) = CONNECTED
            \<or> status (run es initial) = STREAMING
          \<longrightarrow> handleConnectPress w (run es initial) = run es initial)"
  using inv_run [OF inv_initial assms]
  by (simp add: channel_inv_def tracked_def holds_def open_sockets_def guard_blocks)

theorem single_channel_without_pipeline_failure_witness:
  "(\<forall>e\<in>set [ConnectPress env_bind_fails, ConnectPress env_ok, ConnectPress env_ok,
        DisconnectPress, ConnectPress env_ok]. \<not> pipeline_failed e)
    \<and> exclusive [] (calls (run [ConnectPress env_bind_fails, ConnectPress env_ok,
          ConnectPress env_ok, DisconnectPress, ConnectPress env_ok] initial))
    \<and> open_sockets (calls (run [ConnectPress env_bind_fails, ConnectPress env_ok,
          ConnectPress env_ok, DisconnectPress, ConnectPress env_ok] initial)) = [2]"
proof -
  have h: "\<forall>e\<in>set [ConnectPress env_bind_fails, ConnectPress env_ok, ConnectPress env_ok,
        DisconnectPress, ConnectPress env_ok]. \<not> pipeline_failed e"
    by simp
  have v: "commandSocket (run [ConnectPress env_bind_fails, ConnectPress env_ok,
          ConnectPress env_ok, DisconnectPress, ConnectPress env_ok] initial) = Some 2"
    by (simp add: dispatch_def handleDisconnectPress_def handler_defs state_defs const_defs
        sample_defs)
  show ?thesis
    using h v single_channel_without_pipeline_failure [OF h] by simp
qed

text \<open>
  C7 at the requests connect, connect with the pipeline of the first attempt failing
  in between. The failure leaves status Error with socket 0 open; the second request
  passes the guard and creates socket 1 while socket 0 is open. If the second bind
  succeeds both sockets stay open; if it fails the teardown closes socket 1 only and
  socket 0 stays open with no handle left to close it.
\<close>

theorem second_socket_after_pipeline_failure:
  "status (run [ConnectPress env_ok, FFmpegCompleted Failed 1] initial) = ERROR
    \<and> open_sockets (calls (run [ConnectPress env_ok, FFmpegCompleted Failed 1] initial)) = [0]
    \<and> open_sockets (calls (run [ConnectPress env_ok, FFmpegCompleted Failed 1,
         ConnectPress env_ok] initial)) = [0, 1]
    \<and> \<not> exclusive [] (calls (run [ConnectPress env_ok, FFmpegCompleted Failed 1,
         ConnectPress env_ok] initial))
    \<and> \<not> exclusive [] (calls (run [ConnectPress env_ok, FFmpegCompleted Failed 1,
         ConnectPress env_bind_fails] initial))
    \<and> open_sockets (calls (run [ConnectPress env_ok, FFmpegCompleted Failed 1,
         ConnectPress env_bind_fails] initial)) = [0]
    \<and> commandSocket (run [ConnectPress env_ok, FFmpegCompleted Failed 1,
         ConnectPress env_bind_fails] initial) = None"
  by (simp add: dispatch_def ffmpegCompleteCallback_def handler_defs state_defs const_defs
      sample_defs open_sockets_def)

subsection \<open>Preflight with the link down\<close>

text \<open>
  C8, as the code has it. A connect request that is accepted (status Disconnected or
  Error) and passes the permission gate while no network link is up stops at the
  preflight check: no socket is created, no call is issued, and the final status is
  Error with the message \<open>No network connection.\<close>, full stop included. The
  flag-based variant's check records \<open>No network connection\<close> and reports failure.
\<close>

theorem link_down_stops_at_preflight:
  assumes "status s = DISCONNECTED \<or> status s = ERROR"
    and "platform_os w \<noteq> Android \<or> permission_request w = Resolves GRANTED"
    and "netinfo_fetch w = Resolves state"
    and "isConnected state \<noteq> Some True"
  shows "handleConnectPress w s = s\<lparr>status := ERROR, error := ''No network connection.''\<rparr>
    \<and> checkNetwork_jsx w j = (False, j\<lparr>error_jsx := ''No network connection''\<rparr>)"
  using assms
  by (auto simp: handleConnectPress_def checkPermissions_def checkNetwork_def
      checkNetwork_jsx_def state_defs Let_def)

theorem link_down_stops_at_preflight_witness:
  "(status initial = DISCONNECTED \<or> status initial = ERROR)
    \<and> permission_request env_link_down = Resolves GRANTED
    \<and> netinfo_fetch env_link_down = Resolves link_down
    \<and> isConnected link_down \<noteq> Some True
    \<and> handleConnectPress env_link_down initial
        = initial\<lparr>status := ERROR, error := ''No network connection.''\<rparr>
    \<and> checkNetwork_jsx env_link_down initial_jsx
        = (False, initial_jsx\<lparr>error_jsx := ''No network connection''\<rparr>)"
proof -
  have h1: "status initial = DISCONNECTED \<or> status initial = ERROR"
    by (simp add: initial_def)
  have h2: "platform_os env_link_down \<noteq> Android
      \<or> permission_request env_link_down = Resolves GRANTED"
    by (simp add: env_link_down_def env_ok_def)
  have h3: "netinfo_fetch env_link_down = Resolves link_down"
    by (simp add: env_link_down_def)
  have h4: "isConnected link_down \<noteq> Some True"
    by (simp add: link_down_def)
  have h5: "permission_request env_link_down = Resolves GRANTED"
    by (simp add: env_link_down_def env_ok_def)
  show ?thesis
    using h1 h3 h4 h5 link_down_stops_at_preflight [OF h1 h2 h3 h4, of initial_jsx]
    by simp
qed

text \<open>
  C8, as stated, fails on the message: with the link down the status-enum orchestrator
  ends in Error with \<open>No network connection.\<close>, which is not the string
  \<open>No network connection\<close>.
\<close>

theorem link_down_message_counterexample:
  "status (handleConnectPress env_link_down initial) = ERROR
    \<and> error (handleConnectPress env_link_down initial) = ''No network connection.''
    \<and> error (handleConnectPress env_link_down initial) \<noteq> ''No network connection''"
  by (simp add: handler_defs state_defs sample_defs)

subsection \<open>The handshake\<close>

lemma initializeDrone_connected:
  assumes "status (initializeDrone w s) = CONNECTED"
  shows "bind_err w = None \<and> send_err w ''command'' = None \<and> send_err w ''streamon'' = None
    \<and> (\<exists>sid. execute_async w = Resolves sid)"
proof -
  have a: "bind_err w = None"
    using assms
    by (cases "bind_err w")
       (simp_all add: initializeDrone_def initializeDrone_try_def Let_def bindSocket_def
          createSocket_def state_defs cleanup_fields)
  have b: "send_err w ''command'' = None"
    using assms a
    by (cases "send_err w ''command''")
       (simp_all add: initializeDrone_def initializeDrone_try_def Let_def bindSocket_def
          sendCommand_def createSocket_def state_defs cleanup_fields)
  have c: "send_err w ''streamon'' = None"
    using assms a b
    by (cases "send_err w ''streamon''")
       (simp_all add: initializeDrone_def initializeDrone_try_def Let_def bindSocket_def
          sendCommand_def createSocket_def state_defs cleanup_fields)
  have d: "\<exists>sid. execute_async w = Resolves sid"
    using assms a b c
    by (cases "execute_async w")
       (simp_all add: initializeDrone_def initializeDrone_try_def Let_def bindSocket_def
          sendCommand_def createSocket_def startFFmpeg_def state_defs cleanup_fields)
  show ?thesis using a b c d by simp
qed

lemma initializeDrone_success:
  assumes "bind_err w = None" "send_err w ''command'' = None" "send_err w ''streamon'' = None"
    "execute_async w = Resolves sid"
  shows "initializeDrone w s = s\<lparr>status := CONNECTED, error := [],
      commandSocket := Some (created s), ffmpegSessionId := Some sid,
      created := Suc (created s),
      calls := calls s @ [CreateSocket (created s), Bind (created s) (Some 9000),
        Send (created s) ''command'' 0 7 8889 ''192.168.10.1'', SetTimeout 500,
        Send (created s) ''streamon'' 0 8 8889 ''192.168.10.1'', SetTimeout 500,
        ExecuteAsync ffmpegCommand]\<rparr>"
  using assms
  by (simp add: initializeDrone_def initializeDrone_try_def Let_def bindSocket_def
      sendCommand_def createSocket_def startFFmpeg_def state_defs const_defs)


lemma sent_append: "sent (es @ es') = sent es @ sent es'"
  by (induction es rule: sent.induct) simp_all

lemma handleConnectPress_connected:
  assumes "status s = DISCONNECTED \<or> status s = ERROR"
    and "status (handleConnectPress w s) = CONNECTED"
  shows "handleConnectPress w s
      = initializeDrone w (setError [] (setStatus CONNECTING (setError [] s)))"
proof -
  let ?s1 = "setStatus CONNECTING (setError [] s)"
  from assms(1) have g: "\<not> (status s = CONNECTING \<or> status s = CONNECTED \<or> status s = STREAMING)"
    by auto
  have p: "checkPermissions w ?s1 = (True, ?s1)"
    using checkPermissions_cases [of w ?s1] assms(2) g
    by (auto simp: handleConnectPress_def)
  have n: "checkNetwork w ?s1 = (True, setError [] ?s1)"
    using checkNetwork_cases [of w ?s1] assms(2) g p
    by (auto simp: handleConnectPress_def)
  show ?thesis using g p n by (simp add: handleConnectPress_def)
qed

lemma initializeDrone_jsx_connected:
  assumes "isConnected_jsx (initializeDrone_jsx w j)"
  shows "bind_err w = None \<and> send_err w ''command'' = None \<and> send_err w ''streamon'' = None"
proof -
  have a: "bind_err w = None"
    using assms
    by (cases "bind_err w")
       (simp_all add: initializeDrone_jsx_def initializeDrone_try_jsx_def Let_def call_jsx_def)
  have b: "send_err w ''command'' = None"
    using assms a
    by (cases "send_err w ''command''")
       (simp_all add: initializeDrone_jsx_def initializeDrone_try_jsx_def Let_def call_jsx_def)
  have c: "send_err w ''streamon'' = None"
    using assms a b
    by (cases "send_err w ''streamon''")
       (simp_all add: initializeDrone_jsx_def initializeDrone_try_jsx_def Let_def call_jsx_def)
  show ?thesis using a b c by simp
qed

lemma initializeDrone_jsx_success:
  assumes "bind_err w = None" "send_err w ''command'' = None" "send_err w ''streamon'' = None"
  shows "calls_jsx (initializeDrone_jsx w j) = calls_jsx j
      @ [CreateSocket (created_jsx j), Bind (created_jsx j) None,
         Send (created_jsx j) ''command'' 0 7 8889 ''192.168.10.1'', SetTimeout 500,
         Send (created_jsx j) ''streamon'' 0 8 8889 ''192.168.10.1'', SetTimeout 500,
         ExecuteAsync ffmpegCommand]
      @ (case execute_async w of
           Resolves sid \<Rightarrow> [SetTimeout 2000]
         | Rejects m \<Rightarrow> [Alert ''Error'' ''Failed to start video stream''])"
  using assms
  by (simp add: initializeDrone_jsx_def initializeDrone_try_jsx_def Let_def call_jsx_def
      startFFmpeg_jsx_def const_defs split: outcome.splits)

text \<open>
  C6. A connect attempt that ends Connected has issued, after creating and binding
  its socket, exactly the two sends \<open>command\<close> then \<open>streamon\<close> to address
  192.168.10.1, port 8889, each followed by a wait of 500, and then launched the
  pipeline. A send step's result is the send callback's error alone, and a datagram
  received from the device changes nothing. The flag-based variant issues the same
  two sends and waits whenever its attempt ends with the connected flag set.
\<close>

theorem handshake_sequence:
  "((status s = DISCONNECTED \<or> status s = ERROR)
      \<and> status (handleConnectPress w s) = CONNECTED
    \<longrightarrow> calls (handleConnectPress w s) = calls s
          @ [CreateSocket (created s), Bind (created s) (Some 9000),
             Send (created s) ''command'' 0 7 TELLO_COMMAND_PORT TELLO_IP, SetTimeout 500,
             Send (created s) ''streamon'' 0 8 TELLO_COMMAND_PORT TELLO_IP, SetTimeout 500,
             ExecuteAsync ffmpegCommand]
        \<and> sent (calls (handleConnectPress w s)) = sent (calls s)
          @ [(''command'', 8889, ''192.168.10.1''), (''streamon'', 8889, ''192.168.10.1'')])
    \<and> (commandSocket s \<noteq> None \<longrightarrow> fst (sendCommand w c s) = send_err w c)
    \<and> socketMessageHandler msg s = s
    \<and> (isConnected_jsx (initializeDrone_jsx w j)
    \<longrightarrow> calls_jsx (initializeDrone_jsx w j) = calls_jsx j
          @ [CreateSocket (created_jsx j), Bind (created_jsx j) None,
             Send (created_jsx j) ''command'' 0 7 TELLO_PORT TELLO_IP, SetTimeout 500,
             Send (created_jsx j) ''streamon'' 0 8 TELLO_PORT TELLO_IP, SetTimeout 500,
             ExecuteAsync ffmpegCommand]
          @ (case execute_async w of
               Resolves sid \<Rightarrow> [SetTimeout 2000]
             | Rejects m \<Rightarrow> [Alert ''Error'' ''Failed to start video stream''])
        \<and> sent (calls_jsx (initializeDrone_jsx w j)) = sent (calls_jsx j)
          @ [(''command'', 8889, ''192.168.10.1''), (''streamon'', 8889, ''192.168.10.1'')])"
proof (intro conjI impI)
  assume a: "(status s = DISCONNECTED \<or> status s = ERROR)
      \<and> status (handleConnectPress w s) = CONNECTED"
  let ?s2 = "setError [] (setStatus CONNECTING (setError [] s))"
  have e: "handleConnectPress w s = initializeDrone w ?s2"
    using a by (intro handleConnectPress_connected) simp_all
  with a have "status (initializeDrone w ?s2) = CONNECTED" by simp
  from initializeDrone_connected [OF this] obtain sid where
    ok: "bind_err w = None" "send_err w ''command'' = None" "send_err w ''streamon'' = None"
      "execute_async w = Resolves sid"
    by blast
  show c: "calls (handleConnectPress w s) = calls s
          @ [CreateSocket (created s), Bind (created s) (Some 9000),
             Send (created s) ''command'' 0 7 TELLO_COMMAND_PORT TELLO_IP, SetTimeout 500,
             Send (created s) ''streamon'' 0 8 TELLO_COMMAND_PORT TELLO_IP, SetTimeout 500,
             ExecuteAsync ffmpegCommand]"
    by (simp add: e initializeDrone_success [OF ok] state_defs const_defs)
  show "sent (calls (handleConnectPress w s)) = sent (calls s)
          @ [(''command'', 8889, ''192.168.10.1''), (''streamon'', 8889, ''192.168.10.1'')]"
    by (simp add: c sent_append const_defs)
next
  assume "commandSocket s \<noteq> None"
  then show "fst (sendCommand w c s) = send_err w c"
    by (auto simp: sendCommand_def Let_def)
next
  show "socketMessageHandler msg s = s"
    by (simp add: socketMessageHandler_def)
next
  assume a: "isConnected_jsx (initializeDrone_jsx w j)"
  note ok = initializeDrone_jsx_connected [OF a]
  show c: "calls_jsx (initializeDrone_jsx w j) = calls_jsx j
          @ [CreateSocket (created_jsx j), Bind (created_jsx j) None,
             Send (created_jsx j) ''command'' 0 7 TELLO_PORT TELLO_IP, SetTimeout 500,
             Send (created_jsx j) ''streamon'' 0 8 TELLO_PORT TELLO_IP, SetTimeout 500,
             ExecuteAsync ffmpegCommand]
          @ (case execute_async w of
               Resolves sid \<Rightarrow> [SetTimeout 2000]
             | Rejects m \<Rightarrow> [Alert ''Error'' ''Failed to start video stream''])"
    using ok by (simp add: initializeDrone_jsx_success const_defs)
  show "sent (calls_jsx (initializeDrone_jsx w j)) = sent (calls_jsx j)
          @ [(''command'', 8889, ''192.168.10.1''), (''streamon'', 8889, ''192.168.10.1'')]"
    by (simp add: c sent_append const_defs split: outcome.splits)
qed


theorem handshake_sequence_witness:
  "(status initial = DISCONNECTED \<or> status initial = ERROR)
    \<and> status (handleConnectPress env_ok initial) = CONNECTED
    \<and> sent (calls (handleConnectPress env_ok initial))
        = [(''command'', 8889, ''192.168.10.1''), (''streamon'', 8889, ''192.168.10.1'')]
    \<and> commandSocket connected_demo \<noteq> None
    \<and> fst (sendCommand env_ok ''command'' connected_demo) = None
    \<and> isConnected_jsx (initializeDrone_jsx env_ok initial_jsx)
    \<and> sent (calls_jsx (initializeDrone_jsx env_ok initial_jsx))
        = [(''command'', 8889, ''192.168.10.1''), (''streamon'', 8889, ''192.168.10.1'')]"
proof -
  have h1: "status initial = DISCONNECTED \<or> status initial = ERROR"
    by (simp add: initial_def)
  have h2: "status (handleConnectPress env_ok initial) = CONNECTED"
    using connected_demo_value by (simp add: connected_demo_def)
  have h3: "commandSocket connected_demo \<noteq> None"
    by (simp add: connected_demo_value)
  have h4: "isConnected_jsx (initializeDrone_jsx env_ok initial_jsx)"
    by (simp add: initializeDrone_jsx_def initializeDrone_try_jsx_def startFFmpeg_jsx_def
        Let_def call_jsx_def sample_defs)
  have i: "calls initial = []" "calls_jsx initial_jsx = []"
    by (simp_all add: initial_def initial_jsx_def)
  note t = handshake_sequence [of initial env_ok "''command''" "[]" initial_jsx]
  note u = handshake_sequence [of connected_demo env_ok "''command''" "[]" initial_jsx]
  have a: "sent (calls (handleConnectPress env_ok initial))
        = [(''command'', 8889, ''192.168.10.1''), (''streamon'', 8889, ''192.168.10.1'')]"
    using h1 h2 i t by (simp add: const_defs)
  have b: "fst (sendCommand env_ok ''command'' connected_demo) = None"
    using h3 u by (simp add: env_ok_def)
  have c: "sent (calls_jsx (initializeDrone_jsx env_ok initial_jsx))
        = [(''command'', 8889, ''192.168.10.1''), (''streamon'', 8889, ''192.168.10.1'')]"
    using h4 i t by (simp add: const_defs env_ok_def)
  show ?thesis using h1 h2 h3 h4 a b c by simp
qed

subsection \<open>Entering Streaming\<close>

lemma initializeDrone_status:
  "status (initializeDrone w s) = CONNECTED \<or> status (initializeDrone w s) = DISCONNECTED"
proof -
  obtain r s2 where t: "initializeDrone_try w (setError [] (setStatus CONNECTING s)) = (r, s2)"
    by force
  show ?thesis
  proof (cases r)
    case (Some m)
    with t show ?thesis
      by (simp add: initializeDrone_def Let_def cleanup_fields)
  next
    case None
    with t have "s2
      = startFFmpeg w (setStatus CONNECTED (call (SetTimeout 500)
          (snd (sendCommand w ''streamon'' (call (SetTimeout 500)
            (snd (sendCommand w ''command''
              (snd (bindSocket w (createSocket (setError [] (setStatus CONNECTING s))))))))))))"
      by (auto simp: initializeDrone_try_def Let_def split: prod.splits option.splits)
    then have "status s2 = CONNECTED \<or> status s2 = DISCONNECTED"
      by (simp add: startFFmpeg_def Let_def cleanup_fields state_defs split: outcome.splits)
    with t None show ?thesis
      by (simp add: initializeDrone_def Let_def)
  qed
qed

lemma handleConnectPress_status:
  "status (handleConnectPress w s) = STREAMING \<Longrightarrow> status s = STREAMING"
proof (cases "status s = CONNECTING \<or> status s = CONNECTED \<or> status s = STREAMING")
  case True
  assume "status (handleConnectPress w s) = STREAMING"
  with True show ?thesis by (simp add: handleConnectPress_def)
next
  case False
  assume a: "status (handleConnectPress w s) = STREAMING"
  let ?s1 = "setStatus CONNECTING (setError [] s)"
  have "status (handleConnectPress w s) \<noteq> STREAMING"
    using False checkPermissions_cases [of w ?s1] checkNetwork_cases [of w ?s1]
      initializeDrone_status [of w "setError [] ?s1"]
    by (auto simp: handleConnectPress_def)
  with a show ?thesis by simp
qed

text \<open>
  C3. The ready signal is the only event that advances status from Connected to
  Streaming: if status is Connected (or any other status than Streaming) and an event
  leaves it Streaming, the event is the ready signal, and the ready signal does
  advance Connected to Streaming. Launching the pipeline from Connected never yields
  Streaming; a successful launch leaves the status as it was, and no timer follows it.
\<close>

theorem only_ready_advances_to_streaming:
  "(status s = CONNECTED \<and> status (dispatch e s) = STREAMING \<longrightarrow> e = VideoLoad)
    \<and> (status s \<noteq> STREAMING \<and> status (dispatch e s) = STREAMING \<longrightarrow> e = VideoLoad)
    \<and> (status s = CONNECTED \<longrightarrow> status (dispatch VideoLoad s) = STREAMING)
    \<and> (status s = CONNECTED \<longrightarrow> status (startFFmpeg w s) \<noteq> STREAMING)
    \<and> (execute_async w = Resolves sid
        \<longrightarrow> status (startFFmpeg w s) = status s
          \<and> calls (startFFmpeg w s) = calls s @ [ExecuteAsync ffmpegCommand])"
proof -
  have general: "e = VideoLoad"
    if a: "status s \<noteq> STREAMING \<and> status (dispatch e s) = STREAMING"
  proof (cases e)
    case (ConnectPress w')
    with a handleConnectPress_status [of w' s] show ?thesis by (simp add: dispatch_def)
  next
    case DisconnectPress
    with a show ?thesis by (simp add: dispatch_def handleDisconnectPress_def cleanup_fields)
  next
    case Unmount
    with a show ?thesis by (simp add: dispatch_def unmount_def cleanup_fields)
  next
    case (FFmpegCompleted rc sid')
    with a show ?thesis
      by (cases rc) (auto simp: dispatch_def ffmpegCompleteCallback_def Let_def state_defs
          split: if_splits)
  next
    case (SocketError m)
    with a show ?thesis by (simp add: dispatch_def socketErrorHandler_def cleanup_fields)
  next
    case (SocketMessage msg)
    with a show ?thesis by (simp add: dispatch_def socketMessageHandler_def)
  next
    case VideoLoad
    then show ?thesis .
  next
    case (VideoError err)
    with a show ?thesis by (simp add: dispatch_def onVideoError_def)
  qed
  have from_connected: "e = VideoLoad"
    if "status s = CONNECTED \<and> status (dispatch e s) = STREAMING"
    using that general by simp
  have ready: "status (dispatch VideoLoad s) = STREAMING" if "status s = CONNECTED"
    using that by (simp add: dispatch_def onVideoLoad_def)
  have launch: "status (startFFmpeg w s) \<noteq> STREAMING" if "status s = CONNECTED"
    using that
    by (simp add: startFFmpeg_def Let_def cleanup_fields state_defs split: outcome.splits)
  have launched: "status (startFFmpeg w s) = status s
      \<and> calls (startFFmpeg w s) = calls s @ [ExecuteAsync ffmpegCommand]"
    if "execute_async w = Resolves sid"
    using that by (simp add: startFFmpeg_def Let_def state_defs)
  show ?thesis
    using general from_connected ready launch launched by blast
qed

theorem only_ready_advances_to_streaming_witness:
  "status connected_demo = CONNECTED
    \<and> status (dispatch VideoLoad connected_demo) = STREAMING
    \<and> status (startFFmpeg env_ok connected_demo) = CONNECTED
    \<and> execute_async env_ok = Resolves 1
    \<and> calls (startFFmpeg env_ok connected_demo)
        = calls connected_demo @ [ExecuteAsync ffmpegCommand]"
proof -
  have h1: "status connected_demo = CONNECTED"
    by (simp add: connected_demo_value)
  have h2: "execute_async env_ok = Resolves 1"
    by (simp add: env_ok_def)
  show ?thesis
    using h1 h2
      only_ready_advances_to_streaming [of connected_demo VideoLoad env_ok 1]
    by simp
qed

end
